theory Spec2Isabelle
  imports Complex_Main "HOL-Library.Multiset"
begin

section \<open>Data model of spotify\_analyzer.py\<close>


record 'ts PlayRecord =
  ts :: 'ts
  ms_played :: int
  master_metadata_track_name :: "string option"
  master_metadata_album_artist_name :: "string option"
  master_metadata_album_album_name :: "string option"
  platform :: string
  skipped :: bool
  offline :: bool
  shuffle :: bool

type_synonym DataFrame = "int PlayRecord list"

section \<open>load\_spotify\_data\<close>

text \<open>
  \<open>pd.to_datetime\<close> belongs to pandas, not to the repository: the parser of one
  timestamp string is a parameter \<open>parse\<close>, which returns the point in time or the
  parser's own error value. The column is converted element by element and the first
  failure is raised.
\<close>

fun to_datetime :: "(string \<Rightarrow> 'e + int) \<Rightarrow> string list \<Rightarrow> 'e + int list" where
  "to_datetime parse [] = Inr []"
| "to_datetime parse (s # ss) =
     (case parse s of
        Inl e \<Rightarrow> Inl e
      | Inr t \<Rightarrow> (case to_datetime parse ss of
                    Inl e \<Rightarrow> Inl e
                  | Inr tss \<Rightarrow> Inr (t # tss)))"



section \<open>Column operations of pandas used by the analyzer\<close>

definition dropna :: "'a option list \<Rightarrow> 'a list" where
  "dropna col = concat (map (\<lambda>v. case v of None \<Rightarrow> [] | Some x \<Rightarrow> [x]) col)"

text \<open>\<open>Series.count()\<close>: the number of non-null values.\<close>

definition count_notna :: "'a option list \<Rightarrow> nat" where
  "count_notna col = length (dropna col)"


text \<open>\<open>Series.sum()\<close> of a boolean column counts the \<open>True\<close> values.\<close>

definition sum_bool :: "bool list \<Rightarrow> nat" where
  "sum_bool col = length (filter (\<lambda>b. b) col)"

text \<open>\<open>Series.mean()\<close>: NaN on an empty column.\<close>

definition mean :: "rat list \<Rightarrow> rat option" where
  "mean xs = (if xs = [] then None else Some (sum_list xs / of_nat (length xs)))"

definition mean_bool :: "bool list \<Rightarrow> rat option" where
  "mean_bool col = mean (map (\<lambda>b. if b then 1 else 0) col)"

text \<open>Division of a float by a constant, and multiplication, keep NaN.\<close>

definition scale :: "rat \<Rightarrow> rat option \<Rightarrow> rat option" where
  "scale c v = map_option (\<lambda>x. x * c) v"

text \<open>
  \<open>round(x, 2)\<close> on a numpy float: \<open>rint(x * 100) / 100\<close>, where \<open>rint\<close> rounds
  to the nearest integer and a tie to the even one.
\<close>

definition rint :: "rat \<Rightarrow> int" where
  "rint x =
     (let f = \<lfloor>x\<rfloor>; d = x - of_int f
      in if d < 1 / 2 then f
         else if 1 / 2 < d then f + 1
         else if even f then f else f + 1)"

definition round2 :: "rat \<Rightarrow> rat" where
  "round2 x = of_int (rint (x * 100)) / 100"

definition round2_opt :: "rat option \<Rightarrow> rat option" where
  "round2_opt v = map_option round2 v"

subsection \<open>value\_counts\<close>

text \<open>
  \<open>Series.value_counts()\<close> drops nulls, counts every distinct value in one pass that
  keeps the values in the order of their first occurrence, and then sorts the counts in
  descending order with a sort that keeps equal counts in that order. The result is the
  ordered list of \<open>(value, count)\<close> pairs; \<open>to_dict()\<close> keeps the order.
\<close>

fun count_add :: "'a \<Rightarrow> ('a \<times> nat) list \<Rightarrow> ('a \<times> nat) list" where
  "count_add x [] = [(x, 1)]"
| "count_add x ((k, c) # kcs) =
     (if k = x then (k, c + 1) # kcs else (k, c) # count_add x kcs)"

definition hash_counts :: "'a list \<Rightarrow> ('a \<times> nat) list" where
  "hash_counts xs = foldl (\<lambda>acc x. count_add x acc) [] xs"







subsection \<open>groupby\<close>

text \<open>
  \<open>groupby(keys)\<close>: one group per distinct key, the groups in ascending order of the
  key, the rows of a group in their order in the frame.
\<close>

definition groupby :: "('k::linorder) list \<Rightarrow> 'a list \<Rightarrow> ('k \<times> 'a list) list" where
  "groupby keys rows =
     map (\<lambda>k. (k, map snd (filter (\<lambda>p. fst p = k) (zip keys rows))))
         (sort (remdups keys))"

section \<open>Calendar fields of a timestamp\<close>

text \<open>
  The accessors \<open>.dt.hour\<close>, \<open>.dt.day_name()\<close>, \<open>.dt.month\<close>, \<open>.dt.year\<close> and
  \<open>.dt.date\<close> of a timestamp in UTC. A calendar date is the number of days since
  1970-01-01, which was a Thursday; year, month and day of the month follow from the
  day number by the proleptic Gregorian calendar.
\<close>

definition ns_per_hour :: int where
  "ns_per_hour = 3600000000000"

definition ns_per_day :: int where
  "ns_per_day = 24 * ns_per_hour"

definition date_of :: "int \<Rightarrow> int" where
  "date_of t = t div ns_per_day"




definition civil_from_days :: "int \<Rightarrow> int \<times> int \<times> int" where
  "civil_from_days z0 =
     (let z = z0 + 719468;
          era = z div 146097;
          doe = z - era * 146097;
          yoe = (doe - doe div 1460 + doe div 36524 - doe div 146096) div 365;
          y = yoe + era * 400;
          doy = doe - (365 * yoe + yoe div 4 - yoe div 100);
          mp = (5 * doy + 2) div 153;
          d = doy - (153 * mp + 2) div 5 + 1;
          m = (if mp < 10 then mp + 3 else mp - 9)
      in (if m \<le> 2 then y + 1 else y, m, d))"

definition year_of :: "int \<Rightarrow> int" where
  "year_of t = fst (civil_from_days (date_of t))"


text \<open>\<open>str(date)\<close> is the ISO form \<open>YYYY-MM-DD\<close>, zero-padded.\<close>

fun str_nat :: "nat \<Rightarrow> string" where
  "str_nat n =
     (if n < 10 then [char_of (48 + n)]
      else str_nat (n div 10) @ [char_of (48 + n mod 10)])"

definition zero_pad :: "nat \<Rightarrow> string \<Rightarrow> string" where
  "zero_pad w s = replicate (w - length s) CHR ''0'' @ s"

definition str_date :: "int \<Rightarrow> string" where
  "str_date d =
     (case civil_from_days d of
        (y, m, dd) \<Rightarrow>
          zero_pad 4 (str_nat (nat y)) @ ''-'' @ zero_pad 2 (str_nat (nat m)) @ ''-''
            @ zero_pad 2 (str_nat (nat dd)))"

section \<open>Session segmentation\<close>

text \<open>
  Lines 62 to 70 of the analyzer. The frame is sorted by \<open>ts\<close>; \<open>diff()\<close> gives
  the gap to the previous row and NaT (\<open>None\<close>) for the first row; a comparison
  with NaT is false; the session id of a row is the cumulative sum of the comparison
  column; the rows are grouped by session id, and a group is aggregated to the sum of
  \<open>ms_played\<close> and the count of non-null track names. The model keeps rows of
  equal timestamp in their input order; the default sort of pandas may order them
  differently, and they fall into the same session either way.
\<close>

definition sort_values_ts :: "DataFrame \<Rightarrow> DataFrame" where
  "sort_values_ts df = sort_key ts df"

fun diff_from :: "int \<Rightarrow> int list \<Rightarrow> int option list" where
  "diff_from p [] = []"
| "diff_from p (x # xs) = Some (x - p) # diff_from x xs"

fun diff :: "int list \<Rightarrow> int option list" where
  "diff [] = []"
| "diff (x # xs) = None # diff_from x xs"

definition session_threshold :: int where
  "session_threshold = 30 * 60 * 1000000000"

definition gt_threshold :: "int option \<Rightarrow> bool" where
  "gt_threshold d = (case d of None \<Rightarrow> False | Some v \<Rightarrow> session_threshold < v)"

fun cumsum_from :: "nat \<Rightarrow> bool list \<Rightarrow> nat list" where
  "cumsum_from acc [] = []"
| "cumsum_from acc (b # bs) =
     (let a = acc + (if b then 1 else 0) in a # cumsum_from a bs)"

definition cumsum :: "bool list \<Rightarrow> nat list" where
  "cumsum bs = cumsum_from 0 bs"

definition session_id :: "DataFrame \<Rightarrow> nat list" where
  "session_id df_sorted = cumsum (map gt_threshold (diff (map ts df_sorted)))"

text \<open>The rows of every session, in ascending order of the session id.\<close>

definition session_groups :: "DataFrame \<Rightarrow> (nat \<times> int PlayRecord list) list" where
  "session_groups df =
     (let df_sorted = sort_values_ts df in groupby (session_id df_sorted) df_sorted)"

text \<open>The aggregated frame \<open>sessions\<close>: per session the pair of the two columns.\<close>

definition sessions :: "DataFrame \<Rightarrow> (nat \<times> int \<times> nat) list" where
  "sessions df =
     map (\<lambda>(sid, rows).
            (sid, sum_list (map ms_played rows),
                  count_notna (map master_metadata_track_name rows)))
         (session_groups df)"

section \<open>get\_comprehensive\_stats\<close>



record BehaviorStats =
  skip_rate :: "rat option"
  offline_rate :: "rat option"
  shuffle_rate :: "rat option"

record SessionStats =
  average_session_minutes :: "rat option"
  average_tracks_per_session :: "rat option"
  total_sessions :: nat










definition avg_session_minutes :: "DataFrame \<Rightarrow> rat option" where
  "avg_session_minutes df =
     scale (1 / (1000 * 60)) (mean (map (\<lambda>(sid, ms, n). of_int ms) (sessions df)))"

definition avg_tracks_per_session :: "DataFrame \<Rightarrow> rat option" where
  "avg_tracks_per_session df = mean (map (\<lambda>(sid, ms, n). of_nat n) (sessions df))"



definition session_stats_of :: "DataFrame \<Rightarrow> SessionStats" where
  "session_stats_of df =
     \<lparr> average_session_minutes = round2_opt (avg_session_minutes df),
       average_tracks_per_session = round2_opt (avg_tracks_per_session df),
       total_sessions = length (sessions df) \<rparr>"



section \<open>analyze\_listening\_trends\<close>

text \<open>
  The two dictionaries of parallel arrays. In \<open>daily_stats\<close> the hours are floats and
  the track counts integers; in \<open>rolling_averages\<close> every value is a float or NaN.
\<close>

record ('h, 't) TrendSeries =
  dates :: "string list"
  hours_played :: "'h list"
  tracks_played :: "'t list"
  skip_rate :: "rat option list"
  offline_rate :: "rat option list"
  shuffle_rate :: "rat option list"

record Trends =
  daily_stats :: "(rat, nat) TrendSeries"
  rolling_averages :: "(rat option, rat option) TrendSeries"

text \<open>
  \<open>rolling(7).mean()\<close>: the window of row \<open>i\<close> holds the rows \<open>i - 6\<close> to \<open>i\<close>
  (fewer at the start of the frame); the result is NaN unless the window has at least
  \<open>w\<close> values that are not NaN, and their mean otherwise.
\<close>

definition rolling_window :: "nat \<Rightarrow> nat \<Rightarrow> 'a list \<Rightarrow> 'a list" where
  "rolling_window w i xs = drop (Suc i - w) (take (Suc i) xs)"

definition rolling_mean :: "nat \<Rightarrow> rat option list \<Rightarrow> rat option list" where
  "rolling_mean w xs =
     map (\<lambda>i. let obs = dropna (rolling_window w i xs)
               in if length obs < w then None else mean obs)
         [0..<length xs]"

text \<open>The frame \<open>daily_stats\<close> after the aggregation: the groups by calendar date.\<close>

definition daily_groups :: "DataFrame \<Rightarrow> (int \<times> int PlayRecord list) list" where
  "daily_groups df = groupby (map (\<lambda>r. date_of (ts r)) df) df"

definition analyze_listening_trends :: "DataFrame \<Rightarrow> Trends" where
  "analyze_listening_trends df =
     (let groups = daily_groups df;
          index = map fst groups;
          ms_col = map (\<lambda>(d, rows). sum_list (map ms_played rows)) groups;
          track_col = map (\<lambda>(d, rows). count_notna (map master_metadata_track_name rows)) groups;
          skipped_col = map (\<lambda>(d, rows). mean_bool (map skipped rows)) groups;
          offline_col = map (\<lambda>(d, rows). mean_bool (map offline rows)) groups;
          shuffle_col = map (\<lambda>(d, rows). mean_bool (map shuffle rows)) groups;
          hours_col = map (\<lambda>ms. of_int ms / (1000 * 60 * 60)) ms_col
      in \<lparr> daily_stats =
             \<lparr> dates = map str_date index,
               hours_played = hours_col,
               tracks_played = track_col,
               skip_rate = skipped_col,
               offline_rate = offline_col,
               shuffle_rate = shuffle_col \<rparr>,
           rolling_averages =
             \<lparr> dates = map str_date index,
               hours_played = rolling_mean 7 (map Some hours_col),
               tracks_played = rolling_mean 7 (map (\<lambda>n. Some (of_nat n)) track_col),
               skip_rate = rolling_mean 7 skipped_col,
               offline_rate = rolling_mean 7 offline_col,
               shuffle_rate = rolling_mean 7 shuffle_col \<rparr> \<rparr>)"

section \<open>The main program\<close>



section \<open>Sample inputs\<close>




definition play_event :: "int \<Rightarrow> int \<Rightarrow> string option \<Rightarrow> string option \<Rightarrow> int PlayRecord" where
  "play_event t ms track artist =
     \<lparr> ts = t, ms_played = ms, master_metadata_track_name = track,
       master_metadata_album_artist_name = artist,
       master_metadata_album_album_name = None, platform = ''ios'',
       skipped = False, offline = False, shuffle = True \<rparr>"

definition minutes :: "int \<Rightarrow> int" where
  "minutes n = n * 60 * 1000000000"

text \<open>Three events: the second 40 minutes after the first, the third 10 minutes later.\<close>

definition event1 :: "int PlayRecord" where
  "event1 = play_event 0 1000 (Some ''a'') None"

definition event2 :: "int PlayRecord" where
  "event2 = play_event (minutes 40) 1000 (Some ''b'') None"

definition event3 :: "int PlayRecord" where
  "event3 = play_event (minutes 50) 1000 (Some ''c'') None"


text \<open>Ten consecutive days; on day \<open>k\<close> one event of \<open>k\<close> hours.\<close>

definition ten_days :: DataFrame where
  "ten_days =
     map (\<lambda>k. play_event (k * ns_per_day) (k * 3600000) (Some ''t'') None)
         [1, 2, 3, 4, 5, 6, 7, 8, 9, 10]"


section \<open>Definitions that follow the specification\<close>


text \<open>
  The specification's wording of a top-\<open>n\<close> ranking of a column: the \<open>n\<close> most
  frequent distinct non-null values with their counts, in descending order of the
  count, values of equal count in the order of their first occurrence in the input.
  \<open>first_index\<close> is the position of the first occurrence of a value in a list;
  \<open>ranks_before\<close> is the order of the ranking on \<open>(value, count)\<close> pairs.
\<close>

definition first_index :: "'a list \<Rightarrow> 'a \<Rightarrow> nat" where
  "first_index xs x = length (takeWhile (\<lambda>y. y \<noteq> x) xs)"



section \<open>Properties of the column operations\<close>

lemma length_diff_from [simp]: "length (diff_from p xs) = length xs"
  by (induction xs arbitrary: p) simp_all

lemma length_diff [simp]: "length (diff xs) = length xs"
  by (cases xs) simp_all

lemma diff_from_nth:
  "i < length xs \<Longrightarrow> diff_from p xs ! i = Some (xs ! i - (p # xs) ! i)"
  by (induction xs arbitrary: p i) (auto simp: nth_Cons')

lemma diff_nth_Suc:
  "Suc i < length xs \<Longrightarrow> diff xs ! Suc i = Some (xs ! Suc i - xs ! i)"
  by (cases xs) (simp_all add: diff_from_nth)

lemma length_cumsum_from [simp]: "length (cumsum_from acc bs) = length bs"
  by (induction bs arbitrary: acc) (simp_all add: Let_def)

lemma cumsum_from_nth_Suc:
  "Suc i < length bs \<Longrightarrow>
   cumsum_from acc bs ! Suc i = cumsum_from acc bs ! i + (if bs ! Suc i then 1 else 0)"
proof (induction bs arbitrary: acc i)
  case Nil
  then show ?case by simp
next
  case (Cons b bs)
  show ?case
  proof (cases i)
    case 0
    with Cons.prems show ?thesis by (cases bs) (simp_all add: Let_def)
  next
    case (Suc j)
    with Cons.prems have "Suc j < length bs" by simp
    from Cons.IH [OF this] Suc show ?thesis by (simp add: Let_def)
  qed
qed

lemma length_session_id [simp]: "length (session_id s) = length s"
  by (simp add: session_id_def cumsum_def)



lemma sort_values_ts_sorted: "sorted (map ts (sort_values_ts df))"
  by (simp add: sort_values_ts_def)

lemma sort_values_ts_mset: "mset (sort_values_ts df) = mset df"
  by (simp add: sort_values_ts_def)




lemma to_datetime_all_parse:
  "(\<forall>s \<in> set ss. \<exists>t. parse s = Inr t) \<Longrightarrow> \<exists>tss. to_datetime parse ss = Inr tss"
  by (induction ss) auto



lemma dropna_map_Some [simp]: "dropna (map (\<lambda>r. Some (f r)) xs) = map f xs"
  by (induction xs) (simp_all add: dropna_def)

lemma hash_counts_snoc: "hash_counts (xs @ [x]) = count_add x (hash_counts xs)"
  by (simp add: hash_counts_def)

lemma hash_counts_Nil [simp]: "hash_counts [] = []"
  by (simp add: hash_counts_def)





lemma count_add_not_Nil [simp]: "count_add x kcs \<noteq> []"
  by (cases kcs) (auto split: if_splits)

lemma hash_counts_eq_Nil [simp]: "hash_counts xs = [] \<longleftrightarrow> xs = []"
  by (induction xs rule: rev_induct) (simp_all add: hash_counts_snoc)

lemma sort_key_eq_Nil [simp]: "sort_key f xs = [] \<longleftrightarrow> xs = []"
  by (metis length_sort length_0_conv)





section \<open>The segmentation rule\<close>



lemma groupby_eq_Nil [simp]: "groupby keys rows = [] \<longleftrightarrow> keys = []"
  by (simp add: groupby_def)

lemma session_id_eq_Nil [simp]: "session_id s = [] \<longleftrightarrow> s = []"
  by (metis length_session_id length_0_conv)

lemma session_groups_eq_Nil [simp]: "session_groups df = [] \<longleftrightarrow> df = []"
  by (simp add: session_groups_def Let_def sort_values_ts_def)

lemma sessions_eq_Nil [simp]: "sessions df = [] \<longleftrightarrow> df = []"
  by (simp add: sessions_def)

lemma mean_eq_None [simp]: "mean xs = None \<longleftrightarrow> xs = []"
  by (simp add: mean_def)



section \<open>Empty input\<close>




section \<open>Unparsable timestamps\<close>





section \<open>Distribution sums\<close>





section \<open>Groups partition the frame\<close>







section \<open>Session statistics\<close>

lemma dropna_Nil [simp]: "dropna [] = []"
  by (simp add: dropna_def)

lemma dropna_append [simp]: "dropna (xs @ ys) = dropna xs @ dropna ys"
  by (simp add: dropna_def)

lemma count_notna_filter:
  "count_notna (map g xs) = size (filter_mset (\<lambda>r. g r \<noteq> None) (mset xs))"
  by (induction xs) (auto simp: count_notna_def dropna_def split: option.splits)











section \<open>Rolling means\<close>

lemma length_rolling_mean [simp]: "length (rolling_mean w xs) = length xs"
  by (simp add: rolling_mean_def)

lemma rolling_mean_nth:
  "i < length xs \<Longrightarrow>
   rolling_mean w xs ! i =
     (if length (dropna (rolling_window w i xs)) < w then None
      else mean (dropna (rolling_window w i xs)))"
  by (simp add: rolling_mean_def Let_def)

lemma length_dropna_le: "length (dropna xs) \<le> length xs"
  by (induction xs) (auto simp: dropna_def split: option.splits)

lemma rolling_mean_start:
  assumes "i < length xs" "Suc i < w"
  shows "rolling_mean w xs ! i = None"
proof -
  have "length (rolling_window w i xs) \<le> Suc i"
    by (simp add: rolling_window_def)
  with length_dropna_le [of "rolling_window w i xs"] assms(2)
  have "length (dropna (rolling_window w i xs)) < w" by linarith
  with assms(1) show ?thesis by (simp add: rolling_mean_nth)
qed

lemma drop_take_nth:
  "b \<le> length xs \<Longrightarrow> drop a (take b xs) = map ((!) xs) [a..<b]"
proof -
  assume le: "b \<le> length xs"
  have "take b xs = take b (map ((!) xs) [0..<length xs])"
    by (simp only: map_nth)
  also have "\<dots> = map ((!) xs) [0..<b]"
    using le by (simp add: take_map)
  finally show ?thesis by (simp add: drop_map)
qed

lemma rolling_mean_full:
  assumes "6 \<le> i" "i < length xs" "\<forall>j. i - 6 \<le> j \<and> j \<le> i \<longrightarrow> xs ! j = Some (v j)"
  shows "rolling_mean 7 xs ! i = Some ((\<Sum>j = i - 6..i. v j) / 7)"
proof -
  have "rolling_window 7 i xs = map ((!) xs) [i - 6..<Suc i]"
    using assms(2) by (simp add: rolling_window_def drop_take_nth)
  also have "\<dots> = map (\<lambda>j. Some (v j)) [i - 6..<Suc i]"
    using assms(3) by (intro map_cong) auto
  finally have obs: "dropna (rolling_window 7 i xs) = map v [i - 6..<Suc i]"
    by (simp del: upt_Suc)
  have len: "length (map v [i - 6..<Suc i]) = 7" using assms(1) by simp
  have "sum_list (map v [i - 6..<Suc i]) = (\<Sum>j = i - 6..i. v j)"
    by (simp add: interv_sum_list_conv_sum_set_nat atLeastLessThanSuc_atLeastAtMost
          del: upt_Suc)
  then show ?thesis
    using assms(2) len obs by (simp add: rolling_mean_nth mean_def del: upt_Suc)
qed

section \<open>Daily statistics\<close>

lemma trends_daily_fields:
  "dates (daily_stats (analyze_listening_trends df)) = map str_date (map fst (daily_groups df))"
  "hours_played (daily_stats (analyze_listening_trends df))
     = map (\<lambda>(d, rows). of_int (sum_list (map ms_played rows)) / (1000 * 60 * 60))
           (daily_groups df)"
  "tracks_played (daily_stats (analyze_listening_trends df))
     = map (\<lambda>(d, rows). count_notna (map master_metadata_track_name rows)) (daily_groups df)"
  "skip_rate (daily_stats (analyze_listening_trends df))
     = map (\<lambda>(d, rows). mean_bool (map skipped rows)) (daily_groups df)"
  "offline_rate (daily_stats (analyze_listening_trends df))
     = map (\<lambda>(d, rows). mean_bool (map offline rows)) (daily_groups df)"
  "shuffle_rate (daily_stats (analyze_listening_trends df))
     = map (\<lambda>(d, rows). mean_bool (map shuffle rows)) (daily_groups df)"
  by (simp_all add: analyze_listening_trends_def Let_def comp_def case_prod_unfold)

lemma trends_rolling_fields:
  "dates (rolling_averages (analyze_listening_trends df))
     = dates (daily_stats (analyze_listening_trends df))"
  "hours_played (rolling_averages (analyze_listening_trends df))
     = rolling_mean 7 (map Some (hours_played (daily_stats (analyze_listening_trends df))))"
  "tracks_played (rolling_averages (analyze_listening_trends df))
     = rolling_mean 7 (map (\<lambda>n. Some (of_nat n))
                           (tracks_played (daily_stats (analyze_listening_trends df))))"
  "skip_rate (rolling_averages (analyze_listening_trends df))
     = rolling_mean 7 (skip_rate (daily_stats (analyze_listening_trends df)))"
  "offline_rate (rolling_averages (analyze_listening_trends df))
     = rolling_mean 7 (offline_rate (daily_stats (analyze_listening_trends df)))"
  "shuffle_rate (rolling_averages (analyze_listening_trends df))
     = rolling_mean 7 (shuffle_rate (daily_stats (analyze_listening_trends df)))"
  by (simp_all add: analyze_listening_trends_def Let_def comp_def)


lemma groupby_nonempty_groups:
  assumes "length keys = length rows" "(k, g) \<in> set (groupby keys rows)"
  shows "g \<noteq> []"
proof -
  from assms(2) have "k \<in> set keys"
    and g: "g = map snd (filter (\<lambda>p. fst p = k) (zip keys rows))"
    by (auto simp: groupby_def)
  then obtain i where i: "i < length keys" "keys ! i = k"
    by (auto simp: in_set_conv_nth)
  with assms(1) have "(k, rows ! i) \<in> set (zip keys rows)"
    by (auto simp: set_zip)
  then have "filter (\<lambda>p. fst p = k) (zip keys rows) \<noteq> []"
    unfolding filter_empty_conv by (metis fst_conv)
  with g show ?thesis by simp
qed

lemma daily_groups_nonempty: "(d, rows) \<in> set (daily_groups df) \<Longrightarrow> rows \<noteq> []"
  by (rule groupby_nonempty_groups [of "map (\<lambda>r. date_of (ts r)) df" df d])
     (simp_all add: daily_groups_def)

lemma mean_bool_Some:
  "col \<noteq> [] \<Longrightarrow>
   mean_bool col = Some (of_nat (sum_bool col) / of_nat (length col))"
proof -
  have "sum_list (map (\<lambda>b. if b then 1 else 0) col) = (of_nat (sum_bool col) :: rat)"
    by (induction col) (simp_all add: sum_bool_def)
  then show "col \<noteq> [] \<Longrightarrow> ?thesis" by (simp add: mean_bool_def mean_def)
qed

lemma daily_rates_defined:
  assumes "j < length (daily_groups df)"
  shows "skip_rate (daily_stats (analyze_listening_trends df)) ! j \<noteq> None"
    and "offline_rate (daily_stats (analyze_listening_trends df)) ! j \<noteq> None"
    and "shuffle_rate (daily_stats (analyze_listening_trends df)) ! j \<noteq> None"
proof -
  obtain d rows where p: "daily_groups df ! j = (d, rows)" by (cases "daily_groups df ! j")
  with assms have "(d, rows) \<in> set (daily_groups df)" by (metis nth_mem)
  then have "rows \<noteq> []" by (rule daily_groups_nonempty)
  then show "skip_rate (daily_stats (analyze_listening_trends df)) ! j \<noteq> None"
    and "offline_rate (daily_stats (analyze_listening_trends df)) ! j \<noteq> None"
    and "shuffle_rate (daily_stats (analyze_listening_trends df)) ! j \<noteq> None"
    using assms p by (simp_all add: trends_daily_fields mean_bool_Some)
qed

lemma length_daily_fields [simp]:
  "length (dates (daily_stats (analyze_listening_trends df))) = length (daily_groups df)"
  "length (hours_played (daily_stats (analyze_listening_trends df))) = length (daily_groups df)"
  "length (tracks_played (daily_stats (analyze_listening_trends df))) = length (daily_groups df)"
  "length (skip_rate (daily_stats (analyze_listening_trends df))) = length (daily_groups df)"
  "length (offline_rate (daily_stats (analyze_listening_trends df))) = length (daily_groups df)"
  "length (shuffle_rate (daily_stats (analyze_listening_trends df))) = length (daily_groups df)"
  by (simp_all add: trends_daily_fields)

lemma rolling_mean_full_opt:
  assumes "6 \<le> i" "i < length xs" "\<forall>j<length xs. xs ! j \<noteq> None"
  shows "rolling_mean 7 xs ! i = Some ((\<Sum>j = i - 6..i. the (xs ! j)) / 7)"
  using assms by (intro rolling_mean_full) auto

lemma ten_days_groups:
  "daily_groups ten_days
     = map (\<lambda>k. (k, [play_event (k * ns_per_day) (k * 3600000) (Some ''t'') None]))
           [1, 2, 3, 4, 5, 6, 7, 8, 9, 10]"
  by (simp add: daily_groups_def ten_days_def groupby_def play_event_def date_of_def
        ns_per_day_def ns_per_hour_def)

lemma ten_days_hours:
  "hours_played (daily_stats (analyze_listening_trends ten_days))
     = [1, 2, 3, 4, 5, 6, 7, 8, 9, 10]"
  by (simp add: trends_daily_fields ten_days_groups play_event_def)

section \<open>Rolling averages of the trend series\<close>

text \<open>
  C4. In each of the five rolling series of the trends output the entries at the indices
  0 to 5 are NaN, and the entry at every index \<open>i \<ge> 6\<close> is the simple mean of the
  seven values of the daily series at the indices \<open>i - 6\<close> to \<open>i\<close>; the window
  counts buckets, not calendar days. The daily rates are never NaN. For daily
  \<open>hours_played = [1, ..., 10]\<close> the rolling value at index 6 is 4.
\<close>

theorem rolling_average_window:
  fixes df :: DataFrame
  defines "d \<equiv> daily_stats (analyze_listening_trends df)"
    and "r \<equiv> rolling_averages (analyze_listening_trends df)"
  shows
    "(\<forall>i < length (dates d).
        skip_rate d ! i \<noteq> None \<and> offline_rate d ! i \<noteq> None \<and> shuffle_rate d ! i \<noteq> None
        \<and> (i < 6 \<longrightarrow>
              hours_played r ! i = None \<and> tracks_played r ! i = None
              \<and> skip_rate r ! i = None \<and> offline_rate r ! i = None
              \<and> shuffle_rate r ! i = None)
        \<and> (6 \<le> i \<longrightarrow>
              hours_played r ! i = Some ((\<Sum>j = i - 6..i. hours_played d ! j) / 7)
              \<and> tracks_played r ! i = Some ((\<Sum>j = i - 6..i. of_nat (tracks_played d ! j)) / 7)
              \<and> skip_rate r ! i = Some ((\<Sum>j = i - 6..i. the (skip_rate d ! j)) / 7)
              \<and> offline_rate r ! i = Some ((\<Sum>j = i - 6..i. the (offline_rate d ! j)) / 7)
              \<and> shuffle_rate r ! i = Some ((\<Sum>j = i - 6..i. the (shuffle_rate d ! j)) / 7)))
     \<and> (hours_played d = [1, 2, 3, 4, 5, 6, 7, 8, 9, 10] \<longrightarrow> hours_played r ! 6 = Some 4)"
proof (intro conjI allI impI)
  fix i assume "i < length (dates d)"
  then have i: "i < length (daily_groups df)" by (simp add: d_def)
  show "skip_rate d ! i \<noteq> None" "offline_rate d ! i \<noteq> None" "shuffle_rate d ! i \<noteq> None"
    unfolding d_def using daily_rates_defined [OF i] by blast+
  {
    assume "i < 6"
    then have "Suc i < 7" by simp
    with i show "hours_played r ! i = None" "tracks_played r ! i = None"
      "skip_rate r ! i = None" "offline_rate r ! i = None" "shuffle_rate r ! i = None"
      unfolding r_def by (simp_all add: trends_rolling_fields rolling_mean_start)
  }
  {
    assume six: "6 \<le> i"
    show "hours_played r ! i = Some ((\<Sum>j = i - 6..i. hours_played d ! j) / 7)"
      unfolding r_def d_def trends_rolling_fields
      using six i by (intro rolling_mean_full) auto
    show "tracks_played r ! i = Some ((\<Sum>j = i - 6..i. of_nat (tracks_played d ! j)) / 7)"
      unfolding r_def d_def trends_rolling_fields
      using six i by (intro rolling_mean_full) auto
    show "skip_rate r ! i = Some ((\<Sum>j = i - 6..i. the (skip_rate d ! j)) / 7)"
      unfolding r_def d_def trends_rolling_fields
      using six i daily_rates_defined(1) [of _ df] by (intro rolling_mean_full_opt) auto
    show "offline_rate r ! i = Some ((\<Sum>j = i - 6..i. the (offline_rate d ! j)) / 7)"
      unfolding r_def d_def trends_rolling_fields
      using six i daily_rates_defined(2) [of _ df] by (intro rolling_mean_full_opt) auto
    show "shuffle_rate r ! i = Some ((\<Sum>j = i - 6..i. the (shuffle_rate d ! j)) / 7)"
      unfolding r_def d_def trends_rolling_fields
      using six i daily_rates_defined(3) [of _ df] by (intro rolling_mean_full_opt) auto
  }
next
  assume h: "hours_played d = [1, 2, 3, 4, 5, 6, 7, 8, 9, 10]"
  then have len: "length (hours_played d) = 10" by simp
  have "rolling_mean 7 (map Some (hours_played d)) ! 6
          = Some ((\<Sum>j = 6 - 6..6. hours_played d ! j) / 7)"
    using len by (intro rolling_mean_full) auto
  also have "(\<Sum>j = 6 - 6..6. hours_played d ! j) = 28"
    by (simp add: h sum.atLeast_Suc_atMost)
  finally show "hours_played r ! 6 = Some 4"
    unfolding r_def d_def by (simp add: trends_rolling_fields)
qed

theorem rolling_average_window_witness:
  "(6::nat) < length (dates (daily_stats (analyze_listening_trends ten_days)))
   \<and> hours_played (daily_stats (analyze_listening_trends ten_days))
       = [1, 2, 3, 4, 5, 6, 7, 8, 9, 10]
   \<and> hours_played (rolling_averages (analyze_listening_trends ten_days)) ! 0 = None
   \<and> hours_played (rolling_averages (analyze_listening_trends ten_days)) ! 5 = None
   \<and> hours_played (rolling_averages (analyze_listening_trends ten_days)) ! 6 = Some 4
   \<and> hours_played (rolling_averages (analyze_listening_trends ten_days)) ! 9 = Some 7"
proof -
  let ?d = "daily_stats (analyze_listening_trends ten_days)"
  let ?r = "rolling_averages (analyze_listening_trends ten_days)"
  have len: "length (dates ?d) = 10"
    by (simp add: ten_days_groups)
  note T = rolling_average_window [of ten_days]
  from T len have r0: "hours_played ?r ! 0 = None" by simp
  from T len have r5: "hours_played ?r ! 5 = None" by simp
  from T ten_days_hours have r6: "hours_played ?r ! 6 = Some 4" by blast
  from T len have "hours_played ?r ! 9 = Some ((\<Sum>j = 9 - 6..9. hours_played ?d ! j) / 7)"
    by simp
  also have "(\<Sum>j = 9 - 6..9. hours_played ?d ! j) = 49"
    by (simp add: ten_days_hours sum.atLeast_Suc_atMost)
  finally have r9: "hours_played ?r ! 9 = Some 7" by simp
  from len ten_days_hours r0 r5 r6 r9 show ?thesis by simp
qed

section \<open>Shape of the trends output\<close>

lemma groupby_keys: "map fst (groupby keys rows) = sort (remdups keys)"
  by (simp add: groupby_def comp_def)

lemma daily_groups_index:
  "map fst (daily_groups df) = sort (remdups (map (\<lambda>r. date_of (ts r)) df))"
  by (simp add: daily_groups_def groupby_keys)

lemma length_daily_groups:
  "length (daily_groups df) = card ((\<lambda>r. date_of (ts r)) ` set df)"
proof -
  have "length (daily_groups df) = length (map fst (daily_groups df))" by simp
  also have "\<dots> = card (set (map (\<lambda>r. date_of (ts r)) df))"
    by (simp only: daily_groups_index length_sort length_remdups_card_conv)
  finally show ?thesis by simp
qed

text \<open>
  C10. In the trends output \<open>daily_stats\<close> and \<open>rolling_averages\<close> carry the same
  \<open>dates\<close> sequence; all six arrays of either structure have the same length, the
  number of distinct calendar dates of the input; and the dates are the renderings of
  these calendar dates in ascending order, each once.
\<close>

theorem trends_parallel_arrays:
  fixes df :: DataFrame
  defines "d \<equiv> daily_stats (analyze_listening_trends df)"
    and "r \<equiv> rolling_averages (analyze_listening_trends df)"
    and "n \<equiv> card ((\<lambda>r. date_of (ts r)) ` set df)"
  shows
    "dates r = dates d
     \<and> length (dates d) = n \<and> length (hours_played d) = n \<and> length (tracks_played d) = n
     \<and> length (skip_rate d) = n \<and> length (offline_rate d) = n \<and> length (shuffle_rate d) = n
     \<and> length (dates r) = n \<and> length (hours_played r) = n \<and> length (tracks_played r) = n
     \<and> length (skip_rate r) = n \<and> length (offline_rate r) = n \<and> length (shuffle_rate r) = n
     \<and> dates d = map str_date (map fst (daily_groups df))
     \<and> sorted (map fst (daily_groups df))
     \<and> distinct (map fst (daily_groups df))
     \<and> set (map fst (daily_groups df)) = (\<lambda>r. date_of (ts r)) ` set df"
proof -
  have idx: "sorted (map fst (daily_groups df))" "distinct (map fst (daily_groups df))"
    "set (map fst (daily_groups df)) = (\<lambda>r. date_of (ts r)) ` set df"
    by (simp_all only: daily_groups_index sorted_sort distinct_sort distinct_remdups
          set_sort set_remdups set_map)
  have len: "length (daily_groups df) = n"
    unfolding n_def by (rule length_daily_groups)
  have "dates r = dates d"
    unfolding r_def d_def by (rule trends_rolling_fields(1))
  moreover have "length (dates d) = n" "length (hours_played d) = n"
    "length (tracks_played d) = n" "length (skip_rate d) = n" "length (offline_rate d) = n"
    "length (shuffle_rate d) = n"
    unfolding d_def by (simp_all add: len)
  moreover have "length (dates r) = n" "length (hours_played r) = n"
    "length (tracks_played r) = n" "length (skip_rate r) = n" "length (offline_rate r) = n"
    "length (shuffle_rate r) = n"
    unfolding r_def by (simp_all add: trends_rolling_fields len)
  moreover have "dates d = map str_date (map fst (daily_groups df))"
    unfolding d_def by (rule trends_daily_fields(1))
  ultimately show ?thesis using idx by simp
qed

section \<open>Counting values\<close>








section \<open>Order of a ranking\<close>



lemma first_index_less_length [simp]: "first_index xs x < length xs \<longleftrightarrow> x \<in> set xs"
  by (induction xs) (auto simp: first_index_def)

lemma first_index_notin: "x \<notin> set xs \<Longrightarrow> first_index xs x = length xs"
  by (induction xs) (auto simp: first_index_def)



lemma dropna_Cons [simp]:
  "dropna (None # col) = dropna col" "dropna (Some a # col) = a # dropna col"
  by (simp_all add: dropna_def)

lemma first_index_Cons:
  "first_index (y # ys) x = (if y = x then 0 else Suc (first_index ys x))"
  by (simp add: first_index_def)




section \<open>Top rankings\<close>







section \<open>Top content\<close>





section \<open>Segmentation and the order of the input\<close>

lemma ids_nth_Suc:
  assumes "Suc i < length T"
  shows "cumsum (map gt_threshold (diff T)) ! Suc i
       = cumsum (map gt_threshold (diff T)) ! i
         + (if session_threshold < T ! Suc i - T ! i then 1 else 0)"
  using assms
  by (simp add: cumsum_def cumsum_from_nth_Suc diff_nth_Suc gt_threshold_def)

lemma ids_equal_ts:
  assumes "sorted T" "j \<le> i" "i < length T" "T ! j = T ! i"
  shows "cumsum (map gt_threshold (diff T)) ! j = cumsum (map gt_threshold (diff T)) ! i"
  using assms(2)
proof (induction rule: dec_induct)
  case base
  show ?case by simp
next
  case (step n)
  have "T ! j \<le> T ! n" using assms(1,3) step by (intro sorted_nth_mono) auto
  moreover have "T ! n \<le> T ! Suc n" using assms(1,3) step by (intro sorted_nth_mono) auto
  moreover have "T ! Suc n \<le> T ! i" using assms(1,3) step by (intro sorted_nth_mono) auto
  ultimately have "T ! Suc n = T ! n" using assms(4) by simp
  moreover have "Suc n < length T" using step assms(3) by simp
  ultimately have "cumsum (map gt_threshold (diff T)) ! Suc n
                 = cumsum (map gt_threshold (diff T)) ! n"
    by (simp add: ids_nth_Suc session_threshold_def)
  with step show ?case by simp
qed

lemma first_index_le: "i < length xs \<Longrightarrow> first_index xs (xs ! i) \<le> i"
proof (induction xs arbitrary: i)
  case Nil
  then show ?case by simp
next
  case (Cons x xs)
  then show ?case by (cases i) (auto simp: first_index_Cons)
qed

lemma nth_first_index: "x \<in> set xs \<Longrightarrow> xs ! first_index xs x = x"
  by (induction xs) (auto simp: first_index_Cons)

lemma session_id_by_ts:
  assumes "sorted (map ts s)" "i < length s"
  shows "session_id s ! i
       = cumsum (map gt_threshold (diff (map ts s))) ! first_index (map ts s) (ts (s ! i))"
proof -
  let ?T = "map ts s"
  let ?j = "first_index ?T (ts (s ! i))"
  have i: "i < length ?T" "?T ! i = ts (s ! i)" using assms(2) by simp_all
  have "?j \<le> i" using first_index_le [of i ?T] i by simp
  moreover have "?T ! ?j = ?T ! i"
    using nth_first_index [of "ts (s ! i)" ?T] assms(2) by simp
  ultimately have "cumsum (map gt_threshold (diff ?T)) ! ?j
                 = cumsum (map gt_threshold (diff ?T)) ! i"
    using assms(1) i(1) by (intro ids_equal_ts) simp_all
  then show ?thesis by (simp add: session_id_def)
qed

lemma zip_session_id:
  assumes "sorted (map ts s)"
  shows "zip (session_id s) s
       = map (\<lambda>r. (cumsum (map gt_threshold (diff (map ts s)))
                       ! first_index (map ts s) (ts r), r)) s"
  by (rule nth_equalityI) (simp_all add: session_id_by_ts [OF assms])

lemma sorted_ts_unique:
  assumes "mset df = mset df'"
  shows "map ts (sort_values_ts df) = map ts (sort_values_ts df')"
proof -
  have "mset (map ts (sort_values_ts df)) = mset (map ts (sort_values_ts df'))"
    using assms by (simp add: sort_values_ts_def)
  moreover have "sorted (map ts (sort_values_ts df))" "sorted (map ts (sort_values_ts df'))"
    by (rule sort_values_ts_sorted)+
  ultimately show ?thesis
    by (metis properties_for_sort)
qed

lemma zip_session_id_mset:
  assumes "mset df = mset df'"
  shows "mset (zip (session_id (sort_values_ts df)) (sort_values_ts df))
       = mset (zip (session_id (sort_values_ts df')) (sort_values_ts df'))"
proof -
  let ?s = "sort_values_ts df" and ?s' = "sort_values_ts df'"
  have T: "map ts ?s = map ts ?s'" using assms by (rule sorted_ts_unique)
  have "mset ?s = mset ?s'" using assms by (simp add: sort_values_ts_mset)
  then show ?thesis
    unfolding zip_session_id [OF sort_values_ts_sorted] T by (simp only: mset_map)
qed

lemma groupby_msets:
  "map (\<lambda>(k, rows). (k, mset rows)) (groupby keys rows)
     = map (\<lambda>k. (k, image_mset snd (filter_mset (\<lambda>p. fst p = k) (mset (zip keys rows)))))
           (sort (remdups keys))"
  by (simp add: groupby_def comp_def)

lemma session_groups_msets:
  assumes "mset df = mset df'"
  shows "map (\<lambda>(sid, rows). (sid, mset rows)) (session_groups df)
       = map (\<lambda>(sid, rows). (sid, mset rows)) (session_groups df')"
proof -
  have "session_id (sort_values_ts df) = session_id (sort_values_ts df')"
    using sorted_ts_unique [OF assms] by (simp add: session_id_def)
  with zip_session_id_mset [OF assms] show ?thesis
    unfolding session_groups_def Let_def groupby_msets by simp
qed

lemma sessions_from_msets:
  "sessions df
     = map (\<lambda>(sid, M). (sid, sum_mset (image_mset ms_played M),
                           size (filter_mset (\<lambda>r. master_metadata_track_name r \<noteq> None) M)))
           (map (\<lambda>(sid, rows). (sid, mset rows)) (session_groups df))"
proof -
  have "sum_list (map ms_played rows) = sum_mset (image_mset ms_played (mset rows))"
    for rows :: "int PlayRecord list"
    by (simp flip: sum_mset_sum_list)
  then show ?thesis
    by (simp add: sessions_def comp_def case_prod_unfold count_notna_filter)
qed

text \<open>
  C8. Segmentation does not depend on the order of the input: for two lists with the
  same events, the sorted timestamps and the session ids along them are the same, every
  session holds the same events, and the aggregated sessions are equal.
\<close>

theorem segmentation_permutation_invariant:
  fixes df df' :: DataFrame
  assumes "mset df = mset df'"
  shows "map ts (sort_values_ts df) = map ts (sort_values_ts df')
     \<and> session_id (sort_values_ts df) = session_id (sort_values_ts df')
     \<and> map (\<lambda>(sid, rows). (sid, mset rows)) (session_groups df)
         = map (\<lambda>(sid, rows). (sid, mset rows)) (session_groups df')
     \<and> sessions df = sessions df'
     \<and> session_stats_of df = session_stats_of df'"
proof -
  have T: "map ts (sort_values_ts df) = map ts (sort_values_ts df')"
    using assms by (rule sorted_ts_unique)
  then have ids: "session_id (sort_values_ts df) = session_id (sort_values_ts df')"
    by (simp add: session_id_def)
  have G: "map (\<lambda>(sid, rows). (sid, mset rows)) (session_groups df)
         = map (\<lambda>(sid, rows). (sid, mset rows)) (session_groups df')"
    using assms by (rule session_groups_msets)
  then have S: "sessions df = sessions df'"
    by (simp only: sessions_from_msets)
  then have "session_stats_of df = session_stats_of df'"
    by (simp add: session_stats_of_def avg_session_minutes_def avg_tracks_per_session_def)
  with T ids G S show ?thesis by blast
qed

theorem segmentation_permutation_invariant_witness:
  "mset [event3, event1, event2] = mset [event1, event2, event3]
   \<and> session_id (sort_values_ts [event3, event1, event2]) = [0, 1, 1]
   \<and> session_id (sort_values_ts [event3, event1, event2])
       = session_id (sort_values_ts [event1, event2, event3])
   \<and> sessions [event3, event1, event2] = sessions [event1, event2, event3]
   \<and> sessions [event3, event1, event2] = [(0, 1000, 1), (1, 2000, 2)]"
proof -
  have m: "mset [event3, event1, event2] = mset [event1, event2, event3]"
    by simp
  have s: "sort_values_ts [event3, event1, event2] = [event1, event2, event3]"
    by (simp add: sort_values_ts_def event1_def event2_def event3_def play_event_def
          minutes_def)
  have i: "session_id [event1, event2, event3] = [0, 1, 1]"
    by (simp add: session_id_def cumsum_def gt_threshold_def session_threshold_def Let_def
          event1_def event2_def event3_def play_event_def minutes_def)
  have a: "sessions [event1, event2, event3] = [(0, 1000, 1), (1, 2000, 2)]"
    by (simp add: sessions_def session_groups_def sort_values_ts_def session_id_def
          cumsum_def gt_threshold_def session_threshold_def Let_def groupby_def
          count_notna_def event1_def event2_def event3_def play_event_def minutes_def)
  from segmentation_permutation_invariant [OF m] s i a m show ?thesis by simp
qed

end
